theory Spec2Isabelle
  imports Complex_Main "HOL-Library.Char_ord" "HOL-Library.List_Lexorder"
begin

section \<open>Python strings\<close>

text \<open>
  A Python \<open>str\<close> is modelled by the \<open>string\<close> of its UTF-8 bytes (a lone
  surrogate code point, which a \<open>str\<close> can hold, by the three bytes the same
  scheme gives it). The string methods the source calls (\<open>lower\<close>, \<open>upper\<close>,
  \<open>strip\<close>, \<open>startswith\<close>, \<open>join\<close>) are defined below with their
  behaviour on ASCII characters; bytes outside ASCII are left as they are, so the model
  is that of text whose other characters have no case and are not white space.
\<close>

definition ascii_uppercase :: string where
  "ascii_uppercase = ''ABCDEFGHIJKLMNOPQRSTUVWXYZ''"

definition ascii_lowercase :: string where
  "ascii_lowercase = ''abcdefghijklmnopqrstuvwxyz''"

definition char_lower :: "char \<Rightarrow> char" where
  "char_lower c = (case map_of (zip ascii_uppercase ascii_lowercase) c of
                     Some d \<Rightarrow> d | None \<Rightarrow> c)"

definition char_upper :: "char \<Rightarrow> char" where
  "char_upper c = (case map_of (zip ascii_lowercase ascii_uppercase) c of
                     Some d \<Rightarrow> d | None \<Rightarrow> c)"

definition lower :: "string \<Rightarrow> string" where
  "lower s = map char_lower s"

definition upper :: "string \<Rightarrow> string" where
  "upper s = map char_upper s"

text \<open>The ASCII characters for which \<open>str.isspace\<close> holds: 0x09-0x0D, 0x1C-0x20.\<close>

definition whitespace :: string where
  "whitespace = [CHR 0x09, CHR 0x0A, CHR 0x0B, CHR 0x0C, CHR 0x0D,
                 CHR 0x1C, CHR 0x1D, CHR 0x1E, CHR 0x1F, CHR 0x20]"

definition is_space :: "char \<Rightarrow> bool" where
  "is_space c = (c \<in> set whitespace)"

definition strip :: "string \<Rightarrow> string" where
  "strip s = rev (dropWhile is_space (rev (dropWhile is_space s)))"

definition startswith :: "string \<Rightarrow> string \<Rightarrow> bool" where
  "startswith s p = (take (length p) s = p)"

fun join :: "string \<Rightarrow> string list \<Rightarrow> string" where
  "join sep [] = []"
| "join sep [x] = x"
| "join sep (x # y # ys) = x @ sep @ join sep (y # ys)"

text \<open>
  A string that holds a surrogate code point (U+D800 to U+DFFF: the byte 0xED followed
  by a byte from 0xA0 to 0xBF) cannot be encoded: \<open>s.encode("utf-8")\<close> raises
  \<open>UnicodeEncodeError\<close>.
\<close>

fun has_surrogate :: "string \<Rightarrow> bool" where
  "has_surrogate [] = False"
| "has_surrogate (c # s) =
     ((c = CHR 0xED \<and> s \<noteq> [] \<and> CHR 0xA0 \<le> hd s \<and> hd s \<le> CHR 0xBF) \<or> has_surrogate s)"

section \<open>The query history store (app/db/query\_history.py)\<close>

text \<open>
  \<open>QueryRecord\<close> is the dataclass of the source; its field \<open>id\<close> is
  \<open>record_id\<close> here, and \<open>execution_time\<close>, \<open>row_count\<close> carry the prefix
  \<open>rec_\<close> (the same names are fields of \<open>QueryResult\<close>). A Python float is a
  \<open>real\<close>.
\<close>

record QueryRecord =
  record_id :: "int option"
  database_path :: string
  query_text :: string
  timestamp :: string
  rec_execution_time :: real
  rec_row_count :: int
  success :: bool
  error_message :: string

text \<open>
  A row of the table \<open>query_history\<close>, with the columns of the
  \<open>CREATE TABLE\<close> statement in \<open>_ensure_db_exists\<close>; \<open>success\<close> is stored
  as an integer.
\<close>

record history_row =
  h_id :: int
  h_database_path :: string
  h_query_text :: string
  h_timestamp :: string
  h_execution_time :: real
  h_row_count :: int
  h_success :: int
  h_error_message :: string

text \<open>
  Every method of \<open>QueryHistoryDB\<close> opens the history file, runs its statements
  and closes it, inside \<open>try ... except sqlite3.Error\<close>. The file is modelled by
  the rows of its table in rowid order, the \<open>AUTOINCREMENT\<close> counter
  (\<open>sqlite_sequence\<close>) and a \<open>fault\<close>: when set, the engine raises
  \<open>sqlite3.Error\<close> either on \<open>sqlite3.connect\<close> (\<open>OpenFails\<close>) or on the
  first statement (\<open>StatementFails\<close>), and the file is left as it is. SQLite's
  INTEGER is taken unbounded.
\<close>

datatype fault = OpenFails | StatementFails

record history_db =
  history_table :: "history_row list"
  sequence :: int
  fault :: "fault option"

text \<open>The file after \<open>_ensure_db_exists\<close> created it.\<close>

definition new_history_db :: history_db where
  "new_history_db = \<lparr>history_table = [], sequence = 0, fault = None\<rparr>"

text \<open>
  The rowid \<open>AUTOINCREMENT\<close> gives an inserted row: one more than the largest
  rowid the table has ever held.
\<close>

definition next_rowid :: "history_db \<Rightarrow> int" where
  "next_rowid db = Max (insert (sequence db) (set (map h_id (history_table db)))) + 1"

text \<open>\<open>ORDER BY timestamp DESC\<close>: text is compared bytewise; ties keep rowid order.\<close>

definition order_by_timestamp_desc :: "history_row list \<Rightarrow> history_row list" where
  "order_by_timestamp_desc rs = rev (sort_key h_timestamp (rev rs))"

text \<open>\<open>LIMIT ?\<close>: a negative limit is no limit.\<close>

definition sql_limit :: "int \<Rightarrow> 'a list \<Rightarrow> 'a list" where
  "sql_limit n xs = (if n < 0 then xs else take (nat n) xs)"

text \<open>
  \<open>x LIKE pattern\<close> (no \<open>ESCAPE\<close>): \<open>%\<close> matches any run of characters,
  \<open>_\<close> any one character, any other character matches itself up to ASCII case.
  The first argument is the pattern.
\<close>

fun like :: "string \<Rightarrow> string \<Rightarrow> bool" where
  "like [] s = (s = [])"
| "like (p # ps) [] = (p = CHR ''%'' \<and> like ps [])"
| "like (p # ps) (c # cs) =
     (if p = CHR ''%'' then like ps (c # cs) \<or> like (p # ps) cs
      else if p = CHR ''_'' then like ps cs
      else char_lower p = char_lower c \<and> like ps cs)"

text \<open>The \<open>QueryRecord(...)\<close> built from a fetched row; \<open>bool(row[6])\<close>.\<close>

definition record_of_row :: "history_row \<Rightarrow> QueryRecord" where
  "record_of_row r =
     \<lparr>record_id = Some (h_id r),
      database_path = h_database_path r,
      query_text = h_query_text r,
      timestamp = h_timestamp r,
      rec_execution_time = h_execution_time r,
      rec_row_count = h_row_count r,
      success = (h_success r \<noteq> 0),
      error_message = h_error_message r\<rparr>"

text \<open>
  \<open>add_query\<close>: \<open>now\<close> is \<open>datetime.now().isoformat()\<close>. The result is the
  returned id, the caller's record (its timestamp is assigned in place) and the file
  after the call.
\<close>

definition add_query ::
  "string \<Rightarrow> history_db \<Rightarrow> QueryRecord \<Rightarrow> int \<times> QueryRecord \<times> history_db" where
  "add_query now db record =
     (if fault db = Some OpenFails then (-1, record, db)
      else
        let record' = (if timestamp record = [] then record\<lparr>timestamp := now\<rparr> else record)
        in if fault db = Some StatementFails then (-1, record', db)
           else
             let new_id = next_rowid db;
                 row = \<lparr>h_id = new_id,
                        h_database_path = database_path record',
                        h_query_text = query_text record',
                        h_timestamp = timestamp record',
                        h_execution_time = rec_execution_time record',
                        h_row_count = rec_row_count record',
                        h_success = (if success record' then 1 else 0),
                        h_error_message = error_message record'\<rparr>
             in (new_id, record',
                 db\<lparr>history_table := history_table db @ [row], sequence := new_id\<rparr>))"


definition search_history :: "history_db \<Rightarrow> string \<Rightarrow> int \<Rightarrow> QueryRecord list" where
  "search_history db search_term limit =
     (if fault db \<noteq> None then []
      else
        let selected =
              filter (\<lambda>r. like (''%'' @ search_term @ ''%'') (h_query_text r))
                (history_table db)
        in map record_of_row (sql_limit limit (order_by_timestamp_desc selected)))"





text \<open>
  What claim C8 asks of \<open>search_history\<close>, in the spec's words: the term occurs in
  the text as a substring, up to (ASCII) case.
\<close>

fun is_substring :: "string \<Rightarrow> string \<Rightarrow> bool" where
  "is_substring p [] = (p = [])"
| "is_substring p (c # cs) = (startswith (c # cs) p \<or> is_substring p cs)"

definition contains_ci :: "string \<Rightarrow> string \<Rightarrow> bool" where
  "contains_ci term text = is_substring (lower term) (lower text)"

text \<open>A record whose query text holds \<open>user.id\<close> and nowhere \<open>user_id\<close>.\<close>

definition dotted_record :: QueryRecord where
  "dotted_record =
     \<lparr>record_id = None, database_path = ''/data/shop.db'',
      query_text = ''SELECT user.id FROM users'',
      timestamp = ''2026-11-04T10:00:00'', rec_execution_time = 0, rec_row_count = 3,
      success = True, error_message = []\<rparr>"

section \<open>Exceptions\<close>

text \<open>
  The exception classes of app/core/connectors/base\_connector.py
  (\<open>ConnectionError\<close>, \<open>QueryError\<close>, \<open>UnsupportedDatabaseError\<close>, each a
  subclass of the package's own \<open>DatabaseError\<close>), \<open>sqlite3.Error\<close> with its
  subclasses (\<open>Sqlite3Error\<close>: what \<open>except sqlite3.Error\<close> catches), and any
  other Python exception (\<open>OtherException\<close>, for instance the
  \<open>UnicodeEncodeError\<close> that the \<open>sqlite3\<close> module raises for a statement
  that cannot be encoded as UTF-8). Each carries its message, \<open>str(e)\<close>. A function
  that may raise returns \<open>py_exception + 'a\<close>.
\<close>

datatype py_exception =
    ConnectionError string
  | QueryError string
  | UnsupportedDatabaseError string
  | Sqlite3Error string
  | OtherException string

section \<open>The database engine\<close>

text \<open>A value of a result cell, as the \<open>sqlite3\<close> module hands it to Python.\<close>

datatype pyval = PNone | PInt int | PFloat real | PStr string | PBytes string

type_synonym row = "pyval list"

text \<open>Python truthiness (\<open>bool(v)\<close>, \<open>if v\<close>, \<open>v or d\<close>, \<open>not v\<close>).\<close>

fun truthy :: "pyval \<Rightarrow> bool" where
  "truthy PNone = False"
| "truthy (PInt n) = (n \<noteq> 0)"
| "truthy (PFloat x) = (x \<noteq> 0)"
| "truthy (PStr s) = (s \<noteq> [])"
| "truthy (PBytes b) = (b \<noteq> [])"

text \<open>
  The catalog of a database file: for every table its columns, foreign keys and
  indexes as the pragmas \<open>table_info\<close>, \<open>foreign_key_list\<close>, \<open>index_list\<close>
  and \<open>index_info\<close> report them, its rows in rowid order and its DDL text.
  \<open>cd_pk\<close> is the position of the column in the primary key, 0 when it is not
  part of it.
\<close>

record column_def =
  cd_name :: string
  cd_type :: string
  cd_notnull :: bool
  cd_default :: "string option"
  cd_pk :: nat

record foreign_key_def =
  fk_id :: nat
  fk_seq :: nat
  fk_table :: string
  fk_from :: string
  fk_to :: "string option"
  fk_on_update :: string
  fk_on_delete :: string
  fk_match :: string

record index_def =
  ix_name :: string
  ix_unique :: bool
  ix_origin :: string
  ix_partial :: bool
  ix_columns :: "string list"

record sql_table =
  tbl_name :: string
  tbl_columns :: "column_def list"
  tbl_foreign_keys :: "foreign_key_def list"
  tbl_indexes :: "index_def list"
  tbl_rows :: "row list"
  tbl_sql :: string

text \<open>
  An open \<open>sqlite3.Connection\<close>: the tables of the file it is open on, the two
  settings the source changes, and whether a transaction is open (uncommitted
  changes).
\<close>

record sqlite_connection =
  tables :: "sql_table list"
  busy_timeout :: int
  foreign_keys_on :: bool
  in_transaction :: bool

text \<open>
  A cursor after \<open>execute\<close>: the column names of \<open>cursor.description\<close>
  (\<open>None\<close> for a statement that returns no rows), the rows it yields, the exception
  it raises after the last of them (if the engine fails while stepping), and
  \<open>cursor.rowcount\<close>. \<open>fetchall\<close> and \<open>fetchone\<close> are the two methods, called
  on a fresh cursor.
\<close>

record cursor =
  description :: "string list option"
  result_rows :: "row list"
  fetch_error :: "py_exception option"
  rowcount :: int

definition fetchall :: "cursor \<Rightarrow> py_exception + row list" where
  "fetchall cur = (case fetch_error cur of None \<Rightarrow> Inr (result_rows cur) | Some e \<Rightarrow> Inl e)"

definition fetchone :: "cursor \<Rightarrow> py_exception + row option" where
  "fetchone cur =
     (case result_rows cur of
        r # _ \<Rightarrow> Inr (Some r)
      | [] \<Rightarrow> (case fetch_error cur of None \<Rightarrow> Inr None | Some e \<Rightarrow> Inl e))"

text \<open>\<open>str(n)\<close> for a Python integer, and the engine's reading of a decimal literal.\<close>

definition digit_chars :: string where
  "digit_chars = ''0123456789''"

definition is_digit :: "char \<Rightarrow> bool" where
  "is_digit c = (c \<in> set digit_chars)"

definition digit_of_nat :: "nat \<Rightarrow> char" where
  "digit_of_nat d = digit_chars ! d"

definition nat_of_digit :: "char \<Rightarrow> nat" where
  "nat_of_digit c = length (takeWhile (\<lambda>d. d \<noteq> c) digit_chars)"

fun str_nat :: "nat \<Rightarrow> string" where
  "str_nat n = (if n < 10 then [digit_of_nat n]
                else str_nat (n div 10) @ [digit_of_nat (n mod 10)])"

declare str_nat.simps [simp del]

definition str_int :: "int \<Rightarrow> string" where
  "str_int i = (if i < 0 then CHR ''-'' # str_nat (nat (- i)) else str_nat (nat i))"

definition nat_of_digits :: "string \<Rightarrow> nat" where
  "nat_of_digits ds = foldl (\<lambda>a c. 10 * a + nat_of_digit c) 0 ds"

text \<open>
  \<open>read_int s\<close>: an optional minus sign and a non-empty run of digits at the start
  of \<open>s\<close>; the value and the rest of \<open>s\<close>.
\<close>

definition read_int :: "string \<Rightarrow> (int \<times> string) option" where
  "read_int s =
     (let negative = (s \<noteq> [] \<and> hd s = CHR ''-'');
          s1 = (if negative then tl s else s);
          ds = takeWhile is_digit s1;
          rest = dropWhile is_digit s1
      in if ds = [] then None
         else Some (if negative then - int (nat_of_digits ds) else int (nat_of_digits ds), rest))"

text \<open>The two quote characters of SQL text.\<close>

definition dquote :: char where
  "dquote = CHR 0x22"

definition squote :: char where
  "squote = CHR 0x27"

text \<open>
  The statements the engine is modelled for: those the connector itself issues
  (lines 56, 100, 118, 133, 138, 151, 183-189, 202 and 245 of sqlite\_connector.py)
  and the two forms \<open>SELECT n\<close> and \<open>DELETE FROM t\<close>. Any other statement text
  is left to a parameter (\<open>other\<close> below).
\<close>

datatype statement =
    PragmaBusyTimeout int
  | PragmaForeignKeysOn
  | PragmaTableInfo string
  | PragmaForeignKeyList string
  | PragmaIndexList string
  | PragmaIndexInfo string
  | SelectStar string "(string \<times> bool) option" int int
  | SelectCount string
  | SelectTableSql
  | SelectLiteral string
  | DeleteFrom string

text \<open>\<open>strip_prefix p s\<close>: the rest of \<open>s\<close> after \<open>p\<close>, when \<open>s\<close> starts with \<open>p\<close>.\<close>

fun strip_prefix :: "string \<Rightarrow> string \<Rightarrow> string option" where
  "strip_prefix [] s = Some s"
| "strip_prefix (p # ps) [] = None"
| "strip_prefix (p # ps) (c # cs) = (if p = c then strip_prefix ps cs else None)"

text \<open>
  \<open>quoted q s\<close>: \<open>s\<close> up to the first quote character \<open>q\<close> (the end of a
  quoted name that began just before \<open>s\<close>), and what follows that quote.
\<close>

definition quoted :: "char \<Rightarrow> string \<Rightarrow> (string \<times> string) option" where
  "quoted q s =
     (case dropWhile (\<lambda>c. c \<noteq> q) s of
        [] \<Rightarrow> None
      | _ # rest \<Rightarrow> Some (takeWhile (\<lambda>c. c \<noteq> q) s, rest))"

text \<open>A pragma call \<open>PRAGMA name('arg')\<close>, as the source writes it.\<close>

definition pragma_call :: "string \<Rightarrow> string \<Rightarrow> string option" where
  "pragma_call name s =
     (case strip_prefix (''PRAGMA '' @ name @ ''('' @ [squote]) s of
        None \<Rightarrow> None
      | Some r \<Rightarrow>
          (case quoted squote r of
             None \<Rightarrow> None
           | Some (arg, rest) \<Rightarrow> if rest = '')'' then Some arg else None))"

text \<open>
  The words SQLite reserves (sqlite.org/lang\_keywords.html); a bare name in
  \<open>DELETE FROM t\<close> is read as a table name when it is made of letters, digits and
  underscores, does not start with a digit, and is none of them.
\<close>

definition sql_keywords :: "string list" where
  "sql_keywords =
     [''ABORT'', ''ACTION'', ''ADD'', ''AFTER'', ''ALL'', ''ALTER'', ''ALWAYS'', ''ANALYZE'',
      ''AND'', ''AS'', ''ASC'', ''ATTACH'', ''AUTOINCREMENT'', ''BEFORE'', ''BEGIN'',
      ''BETWEEN'', ''BY'', ''CASCADE'', ''CASE'', ''CAST'', ''CHECK'', ''COLLATE'',
      ''COLUMN'', ''COMMIT'', ''CONFLICT'', ''CONSTRAINT'', ''CREATE'', ''CROSS'',
      ''CURRENT'', ''CURRENT_DATE'', ''CURRENT_TIME'', ''CURRENT_TIMESTAMP'', ''DATABASE'',
      ''DEFAULT'', ''DEFERRABLE'', ''DEFERRED'', ''DELETE'', ''DESC'', ''DETACH'',
      ''DISTINCT'', ''DO'', ''DROP'', ''EACH'', ''ELSE'', ''END'', ''ESCAPE'', ''EXCEPT'',
      ''EXCLUDE'', ''EXCLUSIVE'', ''EXISTS'', ''EXPLAIN'', ''FAIL'', ''FILTER'', ''FIRST'',
      ''FOLLOWING'', ''FOR'', ''FOREIGN'', ''FROM'', ''FULL'', ''GENERATED'', ''GLOB'',
      ''GROUP'', ''GROUPS'', ''HAVING'', ''IF'', ''IGNORE'', ''IMMEDIATE'', ''IN'', ''INDEX'',
      ''INDEXED'', ''INITIALLY'', ''INNER'', ''INSERT'', ''INSTEAD'', ''INTERSECT'', ''INTO'',
      ''IS'', ''ISNULL'', ''JOIN'', ''KEY'', ''LAST'', ''LEFT'', ''LIKE'', ''LIMIT'', ''MATCH'',
      ''MATERIALIZED'', ''NATURAL'', ''NO'', ''NOT'', ''NOTHING'', ''NOTNULL'', ''NULL'',
      ''NULLS'', ''OF'', ''OFFSET'', ''ON'', ''OR'', ''ORDER'', ''OTHERS'', ''OUTER'', ''OVER'',
      ''PARTITION'', ''PLAN'', ''PRAGMA'', ''PRECEDING'', ''PRIMARY'', ''QUERY'', ''RAISE'',
      ''RANGE'', ''RECURSIVE'', ''REFERENCES'', ''REGEXP'', ''REINDEX'', ''RELEASE'',
      ''RENAME'', ''REPLACE'', ''RESTRICT'', ''RETURNING'', ''RIGHT'', ''ROLLBACK'', ''ROW'',
      ''ROWS'', ''SAVEPOINT'', ''SELECT'', ''SET'', ''TABLE'', ''TEMP'', ''TEMPORARY'', ''THEN'',
      ''TIES'', ''TO'', ''TRANSACTION'', ''TRIGGER'', ''UNBOUNDED'', ''UNION'', ''UNIQUE'',
      ''UPDATE'', ''USING'', ''VACUUM'', ''VALUES'', ''VIEW'', ''VIRTUAL'', ''WHEN'', ''WHERE'',
      ''WINDOW'', ''WITH'', ''WITHOUT'']"

definition is_name_char :: "char \<Rightarrow> bool" where
  "is_name_char c =
     (c \<in> set ascii_lowercase \<or> c \<in> set ascii_uppercase \<or> is_digit c \<or> c = CHR ''_'')"

definition is_bare_name :: "string \<Rightarrow> bool" where
  "is_bare_name s =
     (s \<noteq> [] \<and> list_all is_name_char s \<and> \<not> is_digit (hd s) \<and> upper s \<notin> set sql_keywords)"

text \<open>
  The tail \<open>[ ORDER BY "c" ASC|DESC] LIMIT l OFFSET o\<close> of the statement that
  \<open>get_table_data\<close> builds.
\<close>

definition parse_order_by :: "string \<Rightarrow> ((string \<times> bool) option \<times> string) option" where
  "parse_order_by s =
     (case strip_prefix ('' ORDER BY '' @ [dquote]) s of
        None \<Rightarrow> Some (None, s)
      | Some r \<Rightarrow>
          (case quoted dquote r of
             None \<Rightarrow> None
           | Some (col, rest) \<Rightarrow>
               (case strip_prefix '' DESC'' rest of
                  Some rest' \<Rightarrow> Some (Some (col, True), rest')
                | None \<Rightarrow>
                    (case strip_prefix '' ASC'' rest of
                       Some rest' \<Rightarrow> Some (Some (col, False), rest')
                     | None \<Rightarrow> None))))"

definition parse_limit_offset :: "string \<Rightarrow> (int \<times> int) option" where
  "parse_limit_offset s =
     (case strip_prefix '' LIMIT '' s of
        None \<Rightarrow> None
      | Some r \<Rightarrow>
          (case read_int r of
             None \<Rightarrow> None
           | Some (l, r1) \<Rightarrow>
               (case strip_prefix '' OFFSET '' r1 of
                  None \<Rightarrow> None
                | Some r2 \<Rightarrow>
                    (case read_int r2 of
                       None \<Rightarrow> None
                     | Some (off, r3) \<Rightarrow> if r3 = [] then Some (l, off) else None))))"

definition parse_select_star :: "string \<Rightarrow> statement option" where
  "parse_select_star s =
     (case strip_prefix (''SELECT * FROM '' @ [dquote]) s of
        None \<Rightarrow> None
      | Some r \<Rightarrow>
          (case quoted dquote r of
             None \<Rightarrow> None
           | Some (t, rest) \<Rightarrow>
               (case parse_order_by rest of
                  None \<Rightarrow> None
                | Some (order, rest') \<Rightarrow>
                    (case parse_limit_offset rest' of
                       None \<Rightarrow> None
                     | Some (l, off) \<Rightarrow> Some (SelectStar t order l off)))))"

definition parse_select_count :: "string \<Rightarrow> statement option" where
  "parse_select_count s =
     (case strip_prefix (''SELECT COUNT(*) FROM '' @ [dquote]) s of
        None \<Rightarrow> None
      | Some r \<Rightarrow>
          (case quoted dquote r of
             None \<Rightarrow> None
           | Some (t, rest) \<Rightarrow> if rest = [] then Some (SelectCount t) else None))"

definition parse_select_literal :: "string \<Rightarrow> statement option" where
  "parse_select_literal s =
     (case strip_prefix ''SELECT '' s of
        None \<Rightarrow> None
      | Some ds \<Rightarrow> if ds \<noteq> [] \<and> list_all is_digit ds then Some (SelectLiteral ds) else None)"

definition parse_delete :: "string \<Rightarrow> statement option" where
  "parse_delete s =
     (case strip_prefix ''DELETE FROM '' s of
        None \<Rightarrow> None
      | Some r \<Rightarrow>
          if is_bare_name r then Some (DeleteFrom r)
          else
            (case strip_prefix [dquote] r of
               None \<Rightarrow> None
             | Some r1 \<Rightarrow>
                 (case quoted dquote r1 of
                    None \<Rightarrow> None
                  | Some (t, rest) \<Rightarrow> if rest = [] \<and> t \<noteq> [] then Some (DeleteFrom t) else None)))"

definition parse_pragma :: "string \<Rightarrow> statement option" where
  "parse_pragma s =
     (case strip_prefix ''PRAGMA busy_timeout = '' s of
        Some r \<Rightarrow>
          (case read_int r of
             None \<Rightarrow> None
           | Some (n, rest) \<Rightarrow> if rest = [] then Some (PragmaBusyTimeout n) else None)
      | None \<Rightarrow>
          if s = ''PRAGMA foreign_keys = ON'' then Some PragmaForeignKeysOn
          else
            (case pragma_call ''table_info'' s of
               Some t \<Rightarrow> Some (PragmaTableInfo t)
             | None \<Rightarrow>
                 (case pragma_call ''foreign_key_list'' s of
                    Some t \<Rightarrow> Some (PragmaForeignKeyList t)
                  | None \<Rightarrow>
                      (case pragma_call ''index_list'' s of
                         Some t \<Rightarrow> Some (PragmaIndexList t)
                       | None \<Rightarrow>
                           (case pragma_call ''index_info'' s of
                              Some i \<Rightarrow> Some (PragmaIndexInfo i)
                            | None \<Rightarrow> None)))))"

text \<open>The statement of line 151 and the text of a pragma call as lines 100-138 write it.\<close>

definition table_sql_query :: string where
  "table_sql_query =
     ''SELECT sql FROM sqlite_master WHERE type='' @ [squote] @ ''table'' @ [squote]
       @ '' AND name=?''"

definition pragma_text :: "string \<Rightarrow> string \<Rightarrow> string" where
  "pragma_text name arg = ''PRAGMA '' @ name @ ''('' @ [squote] @ arg @ [squote] @ '')''"

definition parse_statement :: "string \<Rightarrow> statement option" where
  "parse_statement s =
     (if startswith s ''PRAGMA '' then parse_pragma s
      else if startswith s ''SELECT * '' then parse_select_star s
      else if startswith s ''SELECT COUNT'' then parse_select_count s
      else if s = table_sql_query then Some SelectTableSql
      else if startswith s ''SELECT '' then parse_select_literal s
      else if startswith s ''DELETE '' then parse_delete s
      else None)"

text \<open>
  What the engine does with a statement of these forms on an open connection. Names
  of tables, columns and indexes are matched without regard to (ASCII) case. The
  result is \<open>None\<close> where the model does not say what the engine does (a name
  that begins with \<open>sqlite_\<close> and is not in the catalog, an \<open>ORDER BY\<close> name
  that is not a column, a literal outside 64 bits, a \<open>DELETE\<close> on a table that
  foreign keys refer to). A \<open>LIMIT\<close> or \<open>OFFSET\<close> outside 64 bits is the
  engine's error "datatype mismatch".
\<close>

definition find_table :: "sql_table list \<Rightarrow> string \<Rightarrow> sql_table option" where
  "find_table ts name = find (\<lambda>t. lower (tbl_name t) = lower name) ts"

definition is_internal_name :: "string \<Rightarrow> bool" where
  "is_internal_name name = startswith (lower name) ''sqlite_''"

definition in_int64 :: "int \<Rightarrow> bool" where
  "in_int64 n = (- (2 ^ 63) \<le> n \<and> n < 2 ^ 63)"

definition result_cursor :: "string list \<Rightarrow> row list \<Rightarrow> cursor" where
  "result_cursor names rs =
     \<lparr>description = Some names, result_rows = rs, fetch_error = None, rowcount = -1\<rparr>"

definition bool_cell :: "bool \<Rightarrow> pyval" where
  "bool_cell b = PInt (if b then 1 else 0)"

definition text_cell :: "string option \<Rightarrow> pyval" where
  "text_cell v = (case v of None \<Rightarrow> PNone | Some s \<Rightarrow> PStr s)"

definition column_index :: "sql_table \<Rightarrow> string \<Rightarrow> int" where
  "column_index t name =
     (let names = map (\<lambda>cd. lower (cd_name cd)) (tbl_columns t)
      in if lower name \<in> set names
         then int (length (takeWhile (\<lambda>n. n \<noteq> lower name) names)) else -1)"

definition table_info_rows :: "sql_table \<Rightarrow> row list" where
  "table_info_rows t =
     map (\<lambda>(cid, cd).
            [PInt (int cid), PStr (cd_name cd), PStr (cd_type cd), bool_cell (cd_notnull cd),
             text_cell (cd_default cd), PInt (int (cd_pk cd))])
       (enumerate 0 (tbl_columns t))"

definition foreign_key_list_rows :: "sql_table \<Rightarrow> row list" where
  "foreign_key_list_rows t =
     map (\<lambda>fk.
            [PInt (int (fk_id fk)), PInt (int (fk_seq fk)), PStr (fk_table fk),
             PStr (fk_from fk), text_cell (fk_to fk), PStr (fk_on_update fk),
             PStr (fk_on_delete fk), PStr (fk_match fk)])
       (tbl_foreign_keys t)"

definition index_list_rows :: "sql_table \<Rightarrow> row list" where
  "index_list_rows t =
     map (\<lambda>(seq, ix).
            [PInt (int seq), PStr (ix_name ix), bool_cell (ix_unique ix), PStr (ix_origin ix),
             bool_cell (ix_partial ix)])
       (enumerate 0 (tbl_indexes t))"

definition index_info_rows :: "sql_table \<Rightarrow> index_def \<Rightarrow> row list" where
  "index_info_rows t ix =
     map (\<lambda>(seqno, col). [PInt (int seqno), PInt (column_index t col), PStr col])
       (enumerate 0 (ix_columns ix))"

definition find_index :: "sql_table list \<Rightarrow> string \<Rightarrow> (sql_table \<times> index_def) option" where
  "find_index ts name =
     find (\<lambda>(t, ix). lower (ix_name ix) = lower name)
       (concat (map (\<lambda>t. map (Pair t) (tbl_indexes t)) ts))"

text \<open>
  The order of \<open>ORDER BY\<close> on cells: \<open>NULL\<close> first, then numbers by value, then
  text, then blobs, both bytewise. The sort is an insertion sort that keeps rows with
  equal keys in their order.
\<close>

definition cell :: "row \<Rightarrow> nat \<Rightarrow> pyval" where
  "cell r i = (if i < length r then r ! i else PNone)"

fun storage_class :: "pyval \<Rightarrow> nat" where
  "storage_class PNone = 0"
| "storage_class (PInt n) = 1"
| "storage_class (PFloat x) = 1"
| "storage_class (PStr s) = 2"
| "storage_class (PBytes b) = 3"

fun value_le :: "pyval \<Rightarrow> pyval \<Rightarrow> bool" where
  "value_le (PInt a) (PInt b) = (a \<le> b)"
| "value_le (PInt a) (PFloat b) = (real_of_int a \<le> b)"
| "value_le (PFloat a) (PInt b) = (a \<le> real_of_int b)"
| "value_le (PFloat a) (PFloat b) = (a \<le> b)"
| "value_le (PStr a) (PStr b) = (a \<le> b)"
| "value_le (PBytes a) (PBytes b) = (a \<le> b)"
| "value_le a b = (storage_class a \<le> storage_class b)"

fun insert_by :: "('a \<Rightarrow> 'a \<Rightarrow> bool) \<Rightarrow> 'a \<Rightarrow> 'a list \<Rightarrow> 'a list" where
  "insert_by le x [] = [x]"
| "insert_by le x (y # ys) = (if le x y then x # y # ys else y # insert_by le x ys)"

definition sort_by :: "('a \<Rightarrow> 'a \<Rightarrow> bool) \<Rightarrow> 'a list \<Rightarrow> 'a list" where
  "sort_by le xs = foldr (insert_by le) xs []"

definition order_rows :: "sql_table \<Rightarrow> string \<times> bool \<Rightarrow> row list option" where
  "order_rows t order =
     (let i = column_index t (fst order)
      in if i < 0 then None
         else Some (sort_by
                      (\<lambda>a b. if snd order then value_le (cell b (nat i)) (cell a (nat i))
                              else value_le (cell a (nat i)) (cell b (nat i)))
                      (tbl_rows t)))"

definition referenced :: "sql_table list \<Rightarrow> string \<Rightarrow> bool" where
  "referenced ts name =
     list_ex (\<lambda>t. list_ex (\<lambda>fk. lower (fk_table fk) = lower name) (tbl_foreign_keys t)) ts"

fun clear_table :: "string \<Rightarrow> sql_table list \<Rightarrow> sql_table list" where
  "clear_table name [] = []"
| "clear_table name (t # ts) =
     (if lower (tbl_name t) = lower name then t\<lparr>tbl_rows := []\<rparr> # ts
      else t # clear_table name ts)"

definition no_such_table :: "string \<Rightarrow> (py_exception + 'a) option" where
  "no_such_table name =
     (if is_internal_name name then None else Some (Inl (Sqlite3Error (''no such table: '' @ name))))"

fun run_statement ::
  "sqlite_connection \<Rightarrow> statement \<Rightarrow> (py_exception + cursor \<times> sqlite_connection) option" where
  "run_statement conn (PragmaBusyTimeout n) =
     (let ms = (if 0 < n \<and> n < 2 ^ 31 then n else 0)
      in Some (Inr (result_cursor [''timeout''] [[PInt ms]], conn\<lparr>busy_timeout := ms\<rparr>)))"
| "run_statement conn PragmaForeignKeysOn =
     Some (Inr (\<lparr>description = None, result_rows = [], fetch_error = None, rowcount = -1\<rparr>,
                conn\<lparr>foreign_keys_on :=
                       (if in_transaction conn then foreign_keys_on conn else True)\<rparr>))"
| "run_statement conn (PragmaTableInfo name) =
     Some (Inr (result_cursor [''cid'', ''name'', ''type'', ''notnull'', ''dflt_value'', ''pk'']
                  (case find_table (tables conn) name of
                     None \<Rightarrow> [] | Some t \<Rightarrow> table_info_rows t),
                conn))"
| "run_statement conn (PragmaForeignKeyList name) =
     Some (Inr (result_cursor
                  [''id'', ''seq'', ''table'', ''from'', ''to'', ''on_update'', ''on_delete'',
                   ''match'']
                  (case find_table (tables conn) name of
                     None \<Rightarrow> [] | Some t \<Rightarrow> foreign_key_list_rows t),
                conn))"
| "run_statement conn (PragmaIndexList name) =
     Some (Inr (result_cursor [''seq'', ''name'', ''unique'', ''origin'', ''partial'']
                  (case find_table (tables conn) name of
                     None \<Rightarrow> [] | Some t \<Rightarrow> index_list_rows t),
                conn))"
| "run_statement conn (PragmaIndexInfo name) =
     Some (Inr (result_cursor [''seqno'', ''cid'', ''name'']
                  (case find_index (tables conn) name of
                     None \<Rightarrow> [] | Some (t, ix) \<Rightarrow> index_info_rows t ix),
                conn))"
| "run_statement conn (SelectStar name order l off) =
     (case find_table (tables conn) name of
        None \<Rightarrow> no_such_table name
      | Some t \<Rightarrow>
          (case (case order of None \<Rightarrow> Some (tbl_rows t) | Some ob \<Rightarrow> order_rows t ob) of
             None \<Rightarrow> None
           | Some rs \<Rightarrow>
               if \<not> in_int64 l \<or> \<not> in_int64 off then
                 Some (Inl (Sqlite3Error ''datatype mismatch''))
               else
                 Some (Inr (result_cursor (map cd_name (tbl_columns t))
                              (sql_limit l (drop (nat off) rs)),
                            conn))))"
| "run_statement conn (SelectCount name) =
     (case find_table (tables conn) name of
        None \<Rightarrow> no_such_table name
      | Some t \<Rightarrow>
          Some (Inr (result_cursor [''COUNT(*)''] [[PInt (int (length (tbl_rows t)))]], conn)))"
| "run_statement conn SelectTableSql = None"
| "run_statement conn (SelectLiteral ds) =
     (if in_int64 (int (nat_of_digits ds))
      then Some (Inr (result_cursor [ds] [[PInt (int (nat_of_digits ds))]], conn))
      else None)"
| "run_statement conn (DeleteFrom name) =
     (case find_table (tables conn) name of
        None \<Rightarrow> no_such_table name
      | Some t \<Rightarrow>
          if referenced (tables conn) name then None
          else Some (Inr (\<lparr>description = None, result_rows = [], fetch_error = None,
                           rowcount = int (length (tbl_rows t))\<rparr>,
                          conn\<lparr>tables := clear_table name (tables conn),
                               in_transaction := True\<rparr>)))"

text \<open>
  \<open>cursor.execute(sql, params)\<close> (and \<open>connection.execute\<close>) of the \<open>sqlite3\<close>
  module: the cursor and the connection after the statement, or the exception raised.
  The module first encodes the statement and its text parameters as UTF-8, and raises
  \<open>UnicodeEncodeError\<close> (not an \<open>sqlite3.Error\<close>) when that fails. \<open>other\<close>
  is the module's behaviour on every statement the model above does not cover; it may
  raise any exception.
\<close>

type_synonym engine =
  "sqlite_connection \<Rightarrow> string \<Rightarrow> pyval list \<Rightarrow> py_exception + cursor \<times> sqlite_connection"

definition encodable :: "string \<Rightarrow> pyval list \<Rightarrow> bool" where
  "encodable sql params =
     (\<not> has_surrogate sql
      \<and> list_all (\<lambda>v. case v of PStr s \<Rightarrow> \<not> has_surrogate s | _ \<Rightarrow> True) params)"

definition sqlite_execute ::
  "engine \<Rightarrow> sqlite_connection \<Rightarrow> string \<Rightarrow> pyval list
     \<Rightarrow> py_exception + cursor \<times> sqlite_connection" where
  "sqlite_execute other conn sql params =
     (if \<not> encodable sql params then
        Inl (OtherException ''UnicodeEncodeError: surrogates not allowed'')
      else
        (case parse_statement sql of
           None \<Rightarrow> other conn sql params
         | Some SelectTableSql \<Rightarrow>
             (case params of
                [PStr name] \<Rightarrow>
                  Inr (result_cursor [''sql'']
                         (map (\<lambda>t. [PStr (tbl_sql t)])
                            (filter (\<lambda>t. tbl_name t = name) (tables conn))),
                       conn)
              | _ \<Rightarrow> other conn sql params)
         | Some stmt \<Rightarrow>
             if params \<noteq> [] then other conn sql params
             else (case run_statement conn stmt of
                     None \<Rightarrow> other conn sql params
                   | Some result \<Rightarrow> result)))"

section \<open>The connector and its factory\<close>

text \<open>
  \<open>SQLiteConnector\<close> (app/core/connectors/sqlite\_connector.py): the fields
  \<open>_connection\<close> and \<open>_file_path\<close>, and the properties \<open>is_connected\<close> and
  \<open>file_path\<close>.
\<close>

record SQLiteConnector =
  connection :: "sqlite_connection option"
  file_path :: "string option"

definition SUPPORTED_EXTENSIONS :: "string list" where
  "SUPPORTED_EXTENSIONS = [''.db'', ''.sqlite'', ''.sqlite3'']"

text \<open>\<open>SQLiteConnector.__init__\<close>.\<close>

definition new_SQLiteConnector :: SQLiteConnector where
  "new_SQLiteConnector = \<lparr>connection = None, file_path = None\<rparr>"

definition is_connected :: "SQLiteConnector \<Rightarrow> bool" where
  "is_connected c = (connection c \<noteq> None)"

text \<open>
  \<open>Path(p).suffix\<close> of \<open>pathlib\<close>, for POSIX paths: the name is the last
  component of the path that is neither empty nor \<open>.\<close>, and the suffix starts at the
  last dot of the name, unless that dot is the first or the last character.
  \<open>rfind\<close> is \<open>str.rfind\<close> for one character (\<open>-1\<close> when it does not occur).
\<close>

fun split_path :: "string \<Rightarrow> string list" where
  "split_path [] = [[]]"
| "split_path (c # cs) =
     (if c = CHR ''/'' then [] # split_path cs
      else (case split_path cs of [] \<Rightarrow> [[c]] | x # xs \<Rightarrow> (c # x) # xs))"

definition path_name :: "string \<Rightarrow> string" where
  "path_name p =
     (case filter (\<lambda>s. s \<noteq> [] \<and> s \<noteq> ''.'') (split_path p) of
        [] \<Rightarrow> []
      | x # xs \<Rightarrow> last (x # xs))"

definition rfind :: "string \<Rightarrow> char \<Rightarrow> int" where
  "rfind s c =
     (if c \<in> set s then int (length s) - 1 - int (length (takeWhile (\<lambda>d. d \<noteq> c) (rev s)))
      else -1)"

definition suffix :: "string \<Rightarrow> string" where
  "suffix p =
     (let name = path_name p; i = rfind name CHR ''.''
      in if 0 < i \<and> i < int (length name) - 1 then drop (nat i) name else [])"

text \<open>
  \<open>ConnectorFactory\<close> (app/core/connectors/connector\_factory.py). The class-level
  dictionary \<open>_connectors\<close> is an association list in insertion order; its values are
  connector classes, of which the repository has one. \<open>dict_set\<close> is the
  assignment \<open>d[k] = v\<close>.
\<close>

datatype connector_class = SQLiteConnector_class

type_synonym registry = "(string \<times> connector_class) list"






definition is_supported :: "registry \<Rightarrow> string \<Rightarrow> bool" where
  "is_supported connectors path = (lower (suffix path) \<in> set (map fst connectors))"



section \<open>The connector's methods\<close>

text \<open>
  The dataclasses of base\_connector.py. A field that the source fills with a result
  cell holds that cell, whatever its annotation says (\<open>pyval\<close>): Python does not
  check it. \<open>ColumnInfo.name\<close> is \<open>col_name\<close>, \<open>IndexInfo.name\<close> and
  \<open>.columns\<close> are \<open>idx_name\<close> and \<open>idx_columns\<close>, \<open>TableSchema.name\<close> and
  \<open>.row_count\<close> are \<open>schema_name\<close> and \<open>schema_row_count\<close>, and
  \<open>QueryResult.columns\<close> is \<open>result_columns\<close>; the property
  \<open>QueryResult.success\<close> is \<open>result_success\<close>.
\<close>

record ColumnInfo =
  col_name :: pyval
  data_type :: pyval
  nullable :: bool
  default_value :: pyval
  is_primary_key :: bool
  foreign_key :: "string option"

record IndexInfo =
  idx_name :: pyval
  idx_columns :: "pyval list"
  is_unique :: bool

record foreign_key_descriptor =
  fk_column :: pyval
  ref_table :: pyval
  ref_column :: pyval

record TableSchema =
  schema_name :: string
  columns :: "ColumnInfo list"
  primary_keys :: "pyval list"
  foreign_keys :: "foreign_key_descriptor list"
  indexes :: "IndexInfo list"
  schema_row_count :: pyval
  ddl :: pyval

record QueryResult =
  result_columns :: "string list"
  rows :: "row list"
  row_count :: int
  execution_time :: real
  error :: "string option"

text \<open>\<open>QueryResult()\<close> with the defaults of its fields.\<close>

definition QueryResult_default :: QueryResult where
  "QueryResult_default =
     \<lparr>result_columns = [], rows = [], row_count = 0, execution_time = 0, error = None\<rparr>"


text \<open>
  \<open>except sqlite3.Error as e: raise handler(e)\<close>: only an \<open>sqlite3.Error\<close> is
  caught and replaced; any other exception goes on unchanged.
\<close>

definition except_sqlite3 :: "(string \<Rightarrow> py_exception) \<Rightarrow> py_exception \<Rightarrow> py_exception" where
  "except_sqlite3 handler e = (case e of Sqlite3Error msg \<Rightarrow> handler msg | _ \<Rightarrow> e)"

text \<open>
  What the connector asks of the operating system: \<open>Path(p).exists()\<close> and
  \<open>sqlite3.connect(p, ...)\<close>, which gives an open connection or raises.
\<close>

record os_env =
  path_exists :: "string \<Rightarrow> bool"
  sqlite3_connect :: "string \<Rightarrow> py_exception + sqlite_connection"

text \<open>
  The methods return the value (or the exception raised) together with the
  connector after the call.
\<close>

definition disconnect :: "SQLiteConnector \<Rightarrow> SQLiteConnector" where
  "disconnect c =
     (if connection c \<noteq> None then c\<lparr>connection := None, file_path := None\<rparr> else c)"

definition connect ::
  "engine \<Rightarrow> os_env \<Rightarrow> SQLiteConnector \<Rightarrow> string
     \<Rightarrow> (py_exception + bool) \<times> SQLiteConnector" where
  "connect other env c path =
     (if \<not> path_exists env path then
        (Inl (ConnectionError (''File not found: '' @ path)), c)
      else if lower (suffix path) \<notin> set SUPPORTED_EXTENSIONS then
        (Inl (ConnectionError
               (''Unsupported file extension: '' @ suffix path @ ''. Supported: ''
                  @ join '', '' SUPPORTED_EXTENSIONS)), c)
      else
        let handler = (\<lambda>e. ConnectionError (''Failed to connect to database: '' @ e));
            c1 = (if connection c \<noteq> None then disconnect c else c)
        in (case sqlite3_connect env path of
              Inl e \<Rightarrow> (Inl (except_sqlite3 handler e), c1)
            | Inr conn \<Rightarrow>
                (case sqlite_execute other conn ''PRAGMA foreign_keys = ON'' [] of
                   Inl e \<Rightarrow> (Inl (except_sqlite3 handler e), c1\<lparr>connection := Some conn\<rparr>)
                 | Inr (cur, conn') \<Rightarrow>
                     (Inr True, c1\<lparr>connection := Some conn', file_path := Some path\<rparr>))))"

text \<open>
  \<open>execute_query\<close>: \<open>elapsed\<close> is the reading \<open>time.time() - start_time\<close>.
  \<open>execute_statements\<close> is the body of its \<open>try\<close> block, with the connection as
  the block leaves it; \<open>query_failed\<close> is the \<open>except sqlite3.Error\<close> clause.
  \<open>is_select\<close> is the test \<open>query.strip().upper().startswith("SELECT")\<close>.
\<close>

definition is_select :: "string \<Rightarrow> bool" where
  "is_select query = startswith (upper (strip query)) ''SELECT''"

definition execute_statements ::
  "engine \<Rightarrow> real \<Rightarrow> sqlite_connection \<Rightarrow> string \<Rightarrow> int
     \<Rightarrow> (py_exception + QueryResult) \<times> sqlite_connection" where
  "execute_statements other elapsed conn query timeout =
     (case sqlite_execute other conn
             (''PRAGMA busy_timeout = '' @ str_int (timeout * 1000)) [] of
        Inl e \<Rightarrow> (Inl e, conn)
      | Inr (cur0, conn1) \<Rightarrow>
          (case sqlite_execute other conn1 query [] of
             Inl e \<Rightarrow> (Inl e, conn1)
           | Inr (cur, conn2) \<Rightarrow>
               if is_select query then
                 (case fetchall cur of
                    Inl e \<Rightarrow> (Inl e, conn2)
                  | Inr fetched \<Rightarrow>
                      (Inr \<lparr>result_columns =
                              (case description cur of None \<Rightarrow> [] | Some names \<Rightarrow> names),
                            rows = fetched,
                            row_count = int (length fetched),
                            execution_time = elapsed,
                            error = None\<rparr>,
                       conn2))
               else
                 (Inr \<lparr>result_columns = [''affected_rows''],
                       rows = [[PInt (rowcount cur)]],
                       row_count = rowcount cur,
                       execution_time = elapsed,
                       error = None\<rparr>,
                  conn2\<lparr>in_transaction := False\<rparr>)))"

definition query_failed :: "real \<Rightarrow> py_exception \<Rightarrow> py_exception + QueryResult" where
  "query_failed elapsed e =
     (case e of
        Sqlite3Error msg \<Rightarrow>
          Inr (QueryResult_default\<lparr>execution_time := elapsed, error := Some msg\<rparr>)
      | _ \<Rightarrow> Inl e)"

definition execute_query ::
  "engine \<Rightarrow> real \<Rightarrow> SQLiteConnector \<Rightarrow> string \<Rightarrow> int
     \<Rightarrow> (py_exception + QueryResult) \<times> SQLiteConnector" where
  "execute_query other elapsed c query timeout =
     (case connection c of
        None \<Rightarrow> (Inr (QueryResult_default\<lparr>error := Some ''Not connected to database''\<rparr>), c)
      | Some conn \<Rightarrow>
          (case execute_statements other elapsed conn query timeout of
             (Inl e, conn') \<Rightarrow> (query_failed elapsed e, c\<lparr>connection := Some conn'\<rparr>)
           | (Inr result, conn') \<Rightarrow> (Inr result, c\<lparr>connection := Some conn'\<rparr>)))"

text \<open>\<open>get_table_data\<close>: the statement text is built as the f-strings build it.\<close>

definition table_data_query :: "string \<Rightarrow> int \<Rightarrow> int \<Rightarrow> string option \<Rightarrow> bool \<Rightarrow> string" where
  "table_data_query table_name offset limit order_by order_desc =
     (let query = ''SELECT * FROM '' @ [dquote] @ table_name @ [dquote];
          query1 =
            (case order_by of
               None \<Rightarrow> query
             | Some column \<Rightarrow>
                 if column = [] then query
                 else query @ '' ORDER BY '' @ [dquote] @ column @ [dquote] @ '' ''
                        @ (if order_desc then ''DESC'' else ''ASC''))
      in query1 @ '' LIMIT '' @ str_int limit @ '' OFFSET '' @ str_int offset)"

definition get_table_data ::
  "engine \<Rightarrow> real \<Rightarrow> SQLiteConnector \<Rightarrow> string \<Rightarrow> int \<Rightarrow> int \<Rightarrow> string option \<Rightarrow> bool
     \<Rightarrow> (py_exception + QueryResult) \<times> SQLiteConnector" where
  "get_table_data other elapsed c table_name offset limit order_by order_desc =
     (if connection c = None then (Inl (QueryError ''Not connected to database''), c)
      else execute_query other elapsed c
             (table_data_query table_name offset limit order_by order_desc) 30)"

text \<open>
  \<open>get_row_count\<close>: \<open>result[0] if result else 0\<close> on the row of \<open>fetchone()\<close>,
  and \<open>0\<close> when the engine raises an \<open>sqlite3.Error\<close>.
\<close>

definition row_count_query :: "string \<Rightarrow> string" where
  "row_count_query table_name = ''SELECT COUNT(*) FROM '' @ [dquote] @ table_name @ [dquote]"

definition get_row_count ::
  "engine \<Rightarrow> SQLiteConnector \<Rightarrow> string \<Rightarrow> (py_exception + pyval) \<times> SQLiteConnector" where
  "get_row_count other c table_name =
     (case connection c of
        None \<Rightarrow> (Inr (PInt 0), c)
      | Some conn \<Rightarrow>
          (let handler = (\<lambda>e. case e of Sqlite3Error msg \<Rightarrow> Inr (PInt 0) | _ \<Rightarrow> Inl e)
           in case sqlite_execute other conn (row_count_query table_name) [] of
                Inl e \<Rightarrow> (handler e, c)
              | Inr (cur, conn') \<Rightarrow>
                  (case fetchone cur of
                     Inl e \<Rightarrow> (handler e, c\<lparr>connection := Some conn'\<rparr>)
                   | Inr result \<Rightarrow>
                       (Inr (case result of
                               None \<Rightarrow> PInt 0
                             | Some r \<Rightarrow> (case r of [] \<Rightarrow> PInt 0 | v # _ \<Rightarrow> v)),
                        c\<lparr>connection := Some conn'\<rparr>))))"



text \<open>
  The rows of a table in the order of such a clause, for a clause that names one of
  the table's columns (used to state the properties below).
\<close>

definition rows_in_order :: "sql_table \<Rightarrow> (string \<times> bool) option \<Rightarrow> row list" where
  "rows_in_order t order =
     (case order of
        None \<Rightarrow> tbl_rows t
      | Some ob \<Rightarrow> (case order_rows t ob of None \<Rightarrow> tbl_rows t | Some rs \<Rightarrow> rs))"

section \<open>Example data\<close>

text \<open>
  A database with the table \<open>t(id INTEGER PRIMARY KEY, name TEXT)\<close> and three
  rows, a connector open on it, an engine that rejects every statement outside the
  modelled forms as a syntax error, and a file system that holds the database file and
  a text file.
\<close>

definition shop_table :: sql_table where
  "shop_table =
     \<lparr>tbl_name = ''t'',
      tbl_columns =
        [\<lparr>cd_name = ''id'', cd_type = ''INTEGER'', cd_notnull = False, cd_default = None,
          cd_pk = 1\<rparr>,
         \<lparr>cd_name = ''name'', cd_type = ''TEXT'', cd_notnull = False, cd_default = None,
          cd_pk = 0\<rparr>],
      tbl_foreign_keys = [],
      tbl_indexes = [],
      tbl_rows = [[PInt 1, PStr ''a''], [PInt 2, PStr ''b''], [PInt 3, PStr ''c'']],
      tbl_sql = ''CREATE TABLE t(id INTEGER PRIMARY KEY, name TEXT)''\<rparr>"

definition shop_connection :: sqlite_connection where
  "shop_connection =
     \<lparr>tables = [shop_table], busy_timeout = 30000, foreign_keys_on = True,
      in_transaction = False\<rparr>"

definition shop_connector :: SQLiteConnector where
  "shop_connector = \<lparr>connection = Some shop_connection, file_path = Some ''/data/shop.db''\<rparr>"

definition syntax_errors :: engine where
  "syntax_errors = (\<lambda>conn sql params. Inl (Sqlite3Error ''syntax error''))"

definition shop_env :: os_env where
  "shop_env =
     \<lparr>path_exists = (\<lambda>p. p \<in> {''/data/shop.db'', ''/data/notes.txt''}),
      sqlite3_connect = (\<lambda>p. Inr shop_connection)\<rparr>"

text \<open>
  \<open>get_schema\<close>. \<open>py_str\<close> is the text an f-string gives a cell (pragmas
  yield integers, text and \<open>NULL\<close>; the text of a float or of bytes, which they do
  not yield, is not modelled and stands as a placeholder); \<open>py_eq\<close> is \<open>==\<close>
  on cells. \<open>cursor_rows\<close> is \<open>cursor.execute(sql, params)\<close> followed by
  \<open>cursor.fetchall()\<close> on the connector's connection, \<open>cursor_row\<close> the same
  with \<open>fetchone()\<close>. The three loops of the method are \<open>table_info_loop\<close>,
  \<open>foreign_key_loop\<close> and \<open>index_loop\<close> (with \<open>cols\<close>, \<open>pks\<close>,
  \<open>fks\<close> and \<open>idxs\<close> for the lists \<open>columns\<close>, \<open>primary_keys\<close>,
  \<open>foreign_keys\<close> and \<open>indexes\<close>); unpacking a row of the wrong length raises
  \<open>ValueError\<close>, and \<open>r[2]\<close> on a short row raises \<open>IndexError\<close>.
\<close>

fun py_str :: "pyval \<Rightarrow> string" where
  "py_str PNone = ''None''"
| "py_str (PInt n) = str_int n"
| "py_str (PStr s) = s"
| "py_str (PFloat x) = ''<float>''"
| "py_str (PBytes b) = ''<bytes>''"

fun py_eq :: "pyval \<Rightarrow> pyval \<Rightarrow> bool" where
  "py_eq (PInt a) (PFloat b) = (real_of_int a = b)"
| "py_eq (PFloat a) (PInt b) = (a = real_of_int b)"
| "py_eq a b = (a = b)"

definition bind_exec ::
  "(py_exception + 'a) \<times> 's \<Rightarrow> ('a \<Rightarrow> 's \<Rightarrow> (py_exception + 'b) \<times> 's)
     \<Rightarrow> (py_exception + 'b) \<times> 's" where
  "bind_exec m f = (case m of (Inl e, s) \<Rightarrow> (Inl e, s) | (Inr v, s) \<Rightarrow> f v s)"

definition cursor_rows ::
  "engine \<Rightarrow> SQLiteConnector \<Rightarrow> string \<Rightarrow> pyval list
     \<Rightarrow> (py_exception + row list) \<times> SQLiteConnector" where
  "cursor_rows other c sql params =
     (case connection c of
        None \<Rightarrow> (Inl (OtherException ''AttributeError''), c)
      | Some conn \<Rightarrow>
          (case sqlite_execute other conn sql params of
             Inl e \<Rightarrow> (Inl e, c)
           | Inr (cur, conn') \<Rightarrow> (fetchall cur, c\<lparr>connection := Some conn'\<rparr>)))"

definition cursor_row ::
  "engine \<Rightarrow> SQLiteConnector \<Rightarrow> string \<Rightarrow> pyval list
     \<Rightarrow> (py_exception + row option) \<times> SQLiteConnector" where
  "cursor_row other c sql params =
     (case connection c of
        None \<Rightarrow> (Inl (OtherException ''AttributeError''), c)
      | Some conn \<Rightarrow>
          (case sqlite_execute other conn sql params of
             Inl e \<Rightarrow> (Inl e, c)
           | Inr (cur, conn') \<Rightarrow> (fetchone cur, c\<lparr>connection := Some conn'\<rparr>)))"

fun table_info_loop ::
  "row list \<Rightarrow> ColumnInfo list \<Rightarrow> pyval list
     \<Rightarrow> py_exception + ColumnInfo list \<times> pyval list" where
  "table_info_loop [] cols pks = Inr (cols, pks)"
| "table_info_loop (row # rest) cols pks =
     (case row of
        [cid, name, type, notnull, dflt, pk] \<Rightarrow>
          let column =
                \<lparr>col_name = name,
                 data_type = (if truthy type then type else PStr ''BLOB''),
                 nullable = (\<not> truthy notnull),
                 default_value = dflt,
                 is_primary_key = truthy pk,
                 foreign_key = None\<rparr>
          in table_info_loop rest (cols @ [column])
               (if truthy pk then pks @ [name] else pks)
      | _ \<Rightarrow> Inl (OtherException ''ValueError''))"

fun foreign_key_loop ::
  "row list \<Rightarrow> ColumnInfo list \<Rightarrow> foreign_key_descriptor list
     \<Rightarrow> py_exception + ColumnInfo list \<times> foreign_key_descriptor list" where
  "foreign_key_loop [] cols fks = Inr (cols, fks)"
| "foreign_key_loop (row # rest) cols fks =
     (case row of
        [fk_no, seq, to_table, from_col, to_col, on_update, on_delete, match] \<Rightarrow>
          foreign_key_loop rest
            (map (\<lambda>col. if py_eq (col_name col) from_col
                        then col\<lparr>foreign_key := Some (py_str to_table @ ''.'' @ py_str to_col)\<rparr>
                        else col)
               cols)
            (fks @ [\<lparr>fk_column = from_col, ref_table = to_table, ref_column = to_col\<rparr>])
      | _ \<Rightarrow> Inl (OtherException ''ValueError''))"

fun third_cells :: "row list \<Rightarrow> py_exception + pyval list" where
  "third_cells [] = Inr []"
| "third_cells (r # rs) =
     (if length r < 3 then Inl (OtherException ''IndexError'')
      else (case third_cells rs of Inl e \<Rightarrow> Inl e | Inr vs \<Rightarrow> Inr (r ! 2 # vs)))"

fun index_loop ::
  "engine \<Rightarrow> row list \<Rightarrow> IndexInfo list \<Rightarrow> SQLiteConnector
     \<Rightarrow> (py_exception + IndexInfo list) \<times> SQLiteConnector" where
  "index_loop other [] idxs c = (Inr idxs, c)"
| "index_loop other (row # rest) idxs c =
     (case row of
        [seq, name, unique, origin, partial] \<Rightarrow>
          bind_exec (cursor_rows other c (pragma_text ''index_info'' (py_str name)) [])
            (\<lambda>fetched c1.
               case third_cells fetched of
                 Inl e \<Rightarrow> (Inl e, c1)
               | Inr members \<Rightarrow>
                   index_loop other rest
                     (idxs @ [\<lparr>idx_name = name, idx_columns = members,
                                is_unique = truthy unique\<rparr>])
                     c1)
      | _ \<Rightarrow> (Inl (OtherException ''ValueError''), c))"

definition get_schema_statements ::
  "engine \<Rightarrow> SQLiteConnector \<Rightarrow> string \<Rightarrow> (py_exception + TableSchema) \<times> SQLiteConnector" where
  "get_schema_statements other c table_name =
     bind_exec (cursor_rows other c (pragma_text ''table_info'' table_name) [])
       (\<lambda>info_rows c1.
     (case table_info_loop info_rows [] [] of
        Inl e \<Rightarrow> (Inl e, c1)
      | Inr (cols0, pks) \<Rightarrow>
     bind_exec (cursor_rows other c1 (pragma_text ''foreign_key_list'' table_name) [])
       (\<lambda>fk_rows c2.
     (case foreign_key_loop fk_rows cols0 [] of
        Inl e \<Rightarrow> (Inl e, c2)
      | Inr (cols, fks) \<Rightarrow>
     bind_exec (cursor_rows other c2 (pragma_text ''index_list'' table_name) [])
       (\<lambda>index_rows c3.
     bind_exec (index_loop other index_rows [] c3)
       (\<lambda>idxs c4.
     bind_exec (get_row_count other c4 table_name)
       (\<lambda>count c5.
     bind_exec (cursor_row other c5 table_sql_query [PStr table_name])
       (\<lambda>ddl_row c6.
          (Inr \<lparr>schema_name = table_name,
                columns = cols,
                primary_keys = pks,
                foreign_keys = fks,
                indexes = idxs,
                schema_row_count = count,
                ddl = (case ddl_row of
                         None \<Rightarrow> PStr []
                       | Some r \<Rightarrow> (case r of [] \<Rightarrow> PStr [] | v # _ \<Rightarrow> v))\<rparr>,
           c6)))))))))"

definition get_schema ::
  "engine \<Rightarrow> SQLiteConnector \<Rightarrow> string \<Rightarrow> (py_exception + TableSchema) \<times> SQLiteConnector" where
  "get_schema other c table_name =
     (if connection c = None then (Inl (QueryError ''Not connected to database''), c)
      else
        (case get_schema_statements other c table_name of
           (Inl e, c') \<Rightarrow>
             (Inl (except_sqlite3
                    (\<lambda>msg. QueryError (''Failed to get schema for '' @ table_name @ '': '' @ msg))
                    e),
              c')
         | (Inr schema, c') \<Rightarrow> (Inr schema, c')))"

section \<open>Engines that fail only with sqlite3.Error\<close>




section \<open>Deleting from the history store\<close>






section \<open>Writing to the history store and reading back\<close>



lemma set_order_by_timestamp_desc [simp]: "set (order_by_timestamp_desc rs) = set rs"
  by (simp add: order_by_timestamp_desc_def)

lemma length_order_by_timestamp_desc [simp]:
  "length (order_by_timestamp_desc rs) = length rs"
  by (simp add: order_by_timestamp_desc_def)




lemma next_rowid_new [simp]: "next_rowid new_history_db = 1"
  by (simp add: next_rowid_def new_history_db_def)



section \<open>Searching the history store\<close>

text \<open>
  Claim C8 at a search term that holds the \<open>LIKE\<close> wildcard \<open>_\<close>:
  \<open>search_history\<close> interpolates the term into the pattern unescaped, so the
  search for \<open>user_id\<close> in a store whose only record reads
  \<open>SELECT user.id FROM users\<close> returns that record, although its text does not
  contain the term.
\<close>

theorem search_history_wildcard_term:
  "map query_text
     (search_history (snd (snd (add_query [] new_history_db dotted_record))) ''user_id'' 100)
     = [''SELECT user.id FROM users'']
   \<and> \<not> contains_ci ''user_id'' ''SELECT user.id FROM users''"
  by code_simp

section \<open>The connector factory\<close>









section \<open>The disconnected connector\<close>

text \<open>
  Claim C9. On a connector that is not connected, \<open>get_table_data\<close> raises
  \<open>QueryError("Not connected to database")\<close>, while \<open>execute_query\<close> returns a
  \<open>QueryResult\<close> whose \<open>error\<close> field holds the same message and raises
  nothing; neither changes the connector.
\<close>

theorem disconnected_raise_versus_error_result:
  assumes "\<not> is_connected c"
  shows "get_table_data other elapsed c table_name offset limit order_by order_desc
           = (Inl (QueryError ''Not connected to database''), c)
       \<and> execute_query other elapsed c query timeout
           = (Inr (QueryResult_default\<lparr>error := Some ''Not connected to database''\<rparr>), c)"
  using assms by (simp add: is_connected_def get_table_data_def execute_query_def)

text \<open>The two calls on a freshly created connector.\<close>

theorem disconnected_raise_versus_error_result_witness:
  "\<not> is_connected new_SQLiteConnector
   \<and> fst (get_table_data syntax_errors 0 new_SQLiteConnector ''t'' 0 100 None False)
       = Inl (QueryError ''Not connected to database'')
   \<and> (\<exists>r. fst (execute_query syntax_errors 0 new_SQLiteConnector ''SELECT 1'' 30) = Inr r
          \<and> error r = Some ''Not connected to database'')"
proof -
  have d: "\<not> is_connected new_SQLiteConnector"
    by (simp add: is_connected_def new_SQLiteConnector_def)
  from disconnected_raise_versus_error_result [OF d, of syntax_errors 0 "''t''" 0 100 None False
      "''SELECT 1''" 30] d
  show ?thesis by (simp add: QueryResult_default_def)
qed

section \<open>Connecting\<close>

text \<open>
  Claim C10. When the file does not exist, or its lower-cased suffix is not one of the
  backend's extensions, \<open>connect\<close> raises a \<open>ConnectionError\<close> and the connector
  is exactly as before the call: \<open>is_connected\<close> and \<open>file_path\<close> keep their
  values, and a connection that was open stays open.
\<close>

theorem connect_failure_keeps_state:
  assumes "\<not> path_exists env path \<or> lower (suffix path) \<notin> set SUPPORTED_EXTENSIONS"
  shows "\<exists>msg c'. connect other env c path = (Inl (ConnectionError msg), c')
           \<and> c' = c \<and> is_connected c' = is_connected c \<and> file_path c' = file_path c"
  using assms by (auto simp: connect_def)

text \<open>
  A connector open on the shop database stays so when asked to connect to a missing
  file and to an existing text file.
\<close>

theorem connect_failure_keeps_state_witness:
  "\<not> path_exists shop_env ''/data/gone.db''
   \<and> (\<exists>msg. connect syntax_errors shop_env shop_connector ''/data/gone.db''
              = (Inl (ConnectionError msg), shop_connector))
   \<and> path_exists shop_env ''/data/notes.txt''
   \<and> (\<exists>msg. connect syntax_errors shop_env shop_connector ''/data/notes.txt''
              = (Inl (ConnectionError msg), shop_connector))
   \<and> is_connected shop_connector"
proof -
  have a: "\<not> path_exists shop_env ''/data/gone.db''" by (simp add: shop_env_def)
  have b: "lower (suffix ''/data/notes.txt'') \<notin> set SUPPORTED_EXTENSIONS" by code_simp
  have c: "path_exists shop_env ''/data/notes.txt''" by (simp add: shop_env_def)
  have d: "is_connected shop_connector" by (simp add: is_connected_def shop_connector_def)
  from connect_failure_keeps_state [of shop_env "''/data/gone.db''" syntax_errors shop_connector]
    connect_failure_keeps_state [of shop_env "''/data/notes.txt''" syntax_errors shop_connector]
    a b c d
  show ?thesis by blast
qed

section \<open>Reading back the integers and names the connector writes\<close>

lemma digit_cases: "d < 10 \<Longrightarrow> d \<in> {0, 1, 2, 3, 4, 5, 6, 7, 8, 9 :: nat}"
  by auto

lemma digit_of_nat_props:
  assumes "d < 10"
  shows "is_digit (digit_of_nat d)" and "nat_of_digit (digit_of_nat d) = d"
    and "digit_of_nat d \<noteq> CHR ''-''" and "digit_of_nat d \<noteq> CHR 0xED"
  using digit_cases [OF assms]
  by (auto simp: is_digit_def digit_of_nat_def nat_of_digit_def digit_chars_def)

lemma str_nat_digits: "c \<in> set (str_nat n) \<Longrightarrow> is_digit c"
proof (induction n arbitrary: c rule: str_nat.induct)
  case (1 n)
  show ?case
  proof (cases "n < 10")
    case True
    with "1.prems" show ?thesis by (simp add: str_nat.simps [of n] digit_of_nat_props)
  next
    case False
    with "1.prems" "1.IH" show ?thesis
      by (auto simp: str_nat.simps [of n] digit_of_nat_props)
  qed
qed

lemma str_nat_nonempty: "str_nat n \<noteq> []"
  by (simp add: str_nat.simps [of n])

lemma nat_of_digits_snoc:
  "nat_of_digits (ds @ [c]) = 10 * nat_of_digits ds + nat_of_digit c"
  by (simp add: nat_of_digits_def)

lemma nat_of_digits_str_nat: "nat_of_digits (str_nat n) = n"
proof (induction n rule: str_nat.induct)
  case (1 n)
  show ?case
  proof (cases "n < 10")
    case True
    then show ?thesis
      by (simp add: str_nat.simps [of n] nat_of_digits_def digit_of_nat_props)
  next
    case False
    with "1.IH" show ?thesis
      by (simp add: str_nat.simps [of n] nat_of_digits_snoc digit_of_nat_props)
  qed
qed

lemma is_digit_not_minus: "is_digit c \<Longrightarrow> c \<noteq> CHR ''-''"
  by (auto simp: is_digit_def digit_chars_def)

lemma read_int_str_int:
  assumes "rest = [] \<or> \<not> is_digit (hd rest)"
  shows "read_int (str_int i @ rest) = Some (i, rest)"
proof -
  have tw: "takeWhile is_digit (str_nat n @ rest) = str_nat n"
    and dw: "dropWhile is_digit (str_nat n @ rest) = rest" for n
    using assms str_nat_digits [of _ n]
    by (cases rest; simp add: takeWhile_append2 dropWhile_append2)+
  have hd: "hd (str_nat n @ rest) \<noteq> CHR ''-''" for n
    using str_nat_nonempty [of n] str_nat_digits [of "hd (str_nat n)" n] is_digit_not_minus
    by (cases "str_nat n") auto
  show ?thesis
  proof (cases "i < 0")
    case True
    then show ?thesis
      by (simp add: read_int_def str_int_def Let_def tw dw nat_of_digits_str_nat
          str_nat_nonempty)
  next
    case False
    then show ?thesis
      using hd [of "nat i"]
      by (simp add: read_int_def str_int_def Let_def tw dw nat_of_digits_str_nat
          str_nat_nonempty)
  qed
qed


lemma no_lead_no_surrogate: "CHR 0xED \<notin> set s \<Longrightarrow> \<not> has_surrogate s"
  by (induction s) auto

lemma is_digit_not_lead: "is_digit c \<Longrightarrow> c \<noteq> CHR 0xED"
  by (auto simp: is_digit_def digit_chars_def)

lemma str_int_no_surrogate [simp]: "\<not> has_surrogate (str_int i)"
proof -
  have "CHR 0xED \<notin> set (str_nat n)" for n
    using str_nat_digits [of "CHR 0xED" n] is_digit_not_lead by blast
  then have "CHR 0xED \<notin> set (str_int i)" by (simp add: str_int_def)
  then show ?thesis by (rule no_lead_no_surrogate)
qed

lemma read_int_str_int_end [simp]: "read_int (str_int i) = Some (i, [])"
  using read_int_str_int [of "[]" i] by simp




section \<open>Failures of execute\_query\<close>



lemma no_such_table_cases:
  "no_such_table name = Some r \<Longrightarrow> \<exists>msg. r = Inl (Sqlite3Error msg)"
  by (auto simp: no_such_table_def split: if_splits)

















section \<open>Classifying statements\<close>
































section \<open>Paging through a table\<close>

lemma strip_prefix_append [simp]: "strip_prefix p (p @ s) = Some s"
  by (induction p) auto

lemma takeWhile_before_quote:
  "q \<notin> set name \<Longrightarrow> takeWhile (\<lambda>c. c \<noteq> q) (name @ q # rest) = name"
  by (induction name) auto

lemma dropWhile_before_quote:
  "q \<notin> set name \<Longrightarrow> dropWhile (\<lambda>c. c \<noteq> q) (name @ q # rest) = q # rest"
  by (induction name) auto

lemma quoted_name:
  "q \<notin> set name \<Longrightarrow> quoted q (name @ q # rest) = Some (name, rest)"
  by (simp add: quoted_def takeWhile_before_quote dropWhile_before_quote)

lemma space_not_digit: "\<not> is_digit CHR '' ''"
  by (simp add: is_digit_def digit_chars_def)

lemma parse_limit_offset_str:
  "parse_limit_offset ('' LIMIT '' @ str_int l @ '' OFFSET '' @ str_int off) = Some (l, off)"
  by (simp add: parse_limit_offset_def read_int_str_int space_not_digit)

lemma parse_order_by_none:
  "parse_order_by ('' LIMIT '' @ s) = Some (None, '' LIMIT '' @ s)"
  by (simp add: parse_order_by_def)

lemma parse_order_by_some:
  assumes "dquote \<notin> set col"
  shows "parse_order_by ('' ORDER BY '' @ [dquote] @ col @ [dquote] @ '' ''
                          @ (if desc then ''DESC'' else ''ASC'') @ rest)
           = Some (Some (col, desc), rest)"
  using assms by (cases desc) (simp_all add: parse_order_by_def quoted_name)







lemma length_insert_by [simp]: "length (insert_by le x xs) = Suc (length xs)"
  by (induction xs) auto

lemma length_sort_by [simp]: "length (sort_by le xs) = length xs"
  unfolding sort_by_def by (induction xs) auto

lemma length_rows_in_order [simp]: "length (rows_in_order t order) = length (tbl_rows t)"
  by (auto simp: rows_in_order_def order_rows_def Let_def split: option.splits if_splits)
















end
